theory Spec2Isabelle
  imports
    Main
    "HOL-Library.FSet"
    "HOL-Library.Finite_Map"
    "HOL-Library.Multiset"
    "HOL-Library.Char_ord"
    "HOL-Library.List_Lexorder"
begin

section \<open>A real-time chat relay: the socket handlers and the AI endpoint of the server\<close>

text \<open>
  The server keeps two process-wide sets (\<open>connectedUsers\<close>, \<open>typingUsers\<close>), one SQLite
  table \<open>messages\<close> and, per connection, a socket object with an optional \<open>username\<close>
  property. Every handler registered in \<open>io.on('connection', ...)\<close> is a function of the
  server state that returns the new state and the ordered list of what it did: the emits and
  the SQL statements it ran. Console output is left out.

  Payload fields of the socket events are strings, as the event shapes say; the body of an
  HTTP request is any JSON value. A JavaScript string is a list of
  code units and \<open>.length\<close> is the length of that list. The timestamp of a message is
  given as the date that \<open>new Date\<close> makes of it. The live sockets are a finite map from
  connection ids. The outcome of a SQL statement (error or not) is decided by the environment
  and given to the handler as an argument. A handler and the callbacks it registers are run as
  one step: the synchronous part of a handler that waits for the database touches no shared
  state.
\<close>

subsection \<open>JavaScript values\<close>

definition js_truthy :: "string \<Rightarrow> bool" where
  \<comment> \<open>a string is falsy exactly when it is the empty string\<close>
  "js_truthy s \<longleftrightarrow> s \<noteq> []"

text \<open>
  A value of a parsed JSON body. A number is identified by the text that \<open>String\<close> gives
  for it (zero, of either sign, is the one rendered \<open>0\<close>). An object is the list of its
  members in the order of the text; \<open>JSON.parse\<close> keeps the last of two members with one
  name. Reading a property gives \<open>undefined\<close>, here \<open>None\<close>, when there is none: of the
  names the endpoint reads (\<open>prompt\<close>, \<open>history\<close>, \<open>role\<close>, \<open>content\<close>) only an
  object can have one.
\<close>

datatype json =
    JNull
  | JBool bool
  | JNum string
  | JStr string
  | JArray "json list"
  | JObject "(string \<times> json) list"





datatype js_error = RangeError | TypeError

text \<open>
  \<open>new Date(timestamp)\<close>: either an invalid date or a valid one, which is identified by its
  ISO-8601 rendering. \<open>toISOString\<close> throws a \<open>RangeError\<close> on an invalid date.
\<close>

datatype jsdate = InvalidDate | Date string

fun toISOString :: "jsdate \<Rightarrow> js_error + string" where
  "toISOString InvalidDate = Inl RangeError"
| "toISOString (Date ts) = Inr ts"



text \<open>
  \<open>String(v)\<close>, and the conversion inside a template literal, of a parsed JSON value. An
  object is converted by the \<open>toString\<close> it inherits unless it has a member of that name:
  the member is no function, the inherited \<open>valueOf\<close> gives no primitive, and the
  conversion throws a \<open>TypeError\<close>. An array joins the conversions of its elements with
  commas, \<open>null\<close> giving the empty text.
\<close>

fun js_String :: "json \<Rightarrow> js_error + string"
  and join_elements :: "json list \<Rightarrow> js_error + string" where
  "js_String JNull = Inr ''null''"
| "js_String (JBool b) = Inr (if b then ''true'' else ''false'')"
| "js_String (JNum n) = Inr n"
| "js_String (JStr s) = Inr s"
| "js_String (JArray xs) = join_elements xs"
| "js_String (JObject members) =
     (if map_of members ''toString'' \<noteq> None then Inl TypeError else Inr ''[object Object]'')"
| "join_elements [] = Inr []"
| "join_elements (x # xs) =
     (case (if x = JNull then Inr [] else js_String x) of
        Inl exn \<Rightarrow> Inl exn
      | Inr a \<Rightarrow>
          (case join_elements xs of
             Inl exn \<Rightarrow> Inl exn
           | Inr b \<Rightarrow> Inr (if xs = [] then a else a @ '','' @ b)))"

subsection \<open>The table \<open>messages\<close>\<close>

text \<open>
  \<open>id INTEGER PRIMARY KEY AUTOINCREMENT, username TEXT NOT NULL, text TEXT NOT NULL,
  timestamp DATETIME\<close>. The rows are kept in insertion order. The timestamps the server
  stores are ISO-8601 texts, which SQLite compares byte by byte.
\<close>

record row =
  row_id :: nat
  row_username :: string
  row_text :: string
  row_timestamp :: string

record database =
  rows :: "row list"
  sqlite_sequence :: nat

definition next_rowid :: "database \<Rightarrow> nat" where
  \<comment> \<open>AUTOINCREMENT: one more than the largest id the table has ever held\<close>
  "next_rowid d = Suc (fold max (map row_id (rows d)) (sqlite_sequence d))"

definition db_run_insert ::
  "bool \<Rightarrow> database \<Rightarrow> string \<Rightarrow> string \<Rightarrow> string \<Rightarrow> nat option \<times> database" where
  \<comment> \<open>\<open>INSERT INTO messages (username, text, timestamp) VALUES (?, ?, ?)\<close>; the result is
      \<open>this.lastID\<close>, or \<open>None\<close> when the callback gets an error\<close>
  "db_run_insert err d u t ts =
     (if err then (None, d)
      else (let i = next_rowid d in
        (Some i,
         d\<lparr>rows := rows d @ [\<lparr>row_id = i, row_username = u, row_text = t, row_timestamp = ts\<rparr>],
           sqlite_sequence := i\<rparr>)))"

definition select_recent :: "nat \<Rightarrow> row list \<Rightarrow> row list" where
  \<comment> \<open>\<open>SELECT * FROM messages ORDER BY timestamp DESC LIMIT n\<close>. SQLite does not fix the
      order of rows with equal timestamps; here the row inserted later comes first, and
      nothing below depends on that choice\<close>
  "select_recent n rs = take n (rev (sort_key row_timestamp rs))"

definition db_all_select :: "bool \<Rightarrow> database \<Rightarrow> nat \<Rightarrow> row list option" where
  "db_all_select err d n = (if err then None else Some (select_recent n (rows d)))"

record env =
  schema_err :: bool
  stmt_err :: bool

definition ensureSchema :: "bool \<Rightarrow> (bool \<Rightarrow> 'a) \<Rightarrow> 'a" where
  \<comment> \<open>\<open>CREATE TABLE IF NOT EXISTS\<close>; an error is logged and the callback runs all the same\<close>
  "ensureSchema err callback = callback err"

subsection \<open>Server state, emitted events, actions\<close>

type_synonym sid = nat

record socket =
  socket_username :: "string option"

record server =
  connectedUsers :: "string fset"
  typingUsers :: "string fset"
  db :: database
  sockets :: "(sid, socket) fmap"

definition initial :: server where
  "initial = \<lparr>connectedUsers = {||}, typingUsers = {||},
     db = \<lparr>rows = [], sqlite_sequence = 0\<rparr>, sockets = fmempty\<rparr>"

datatype emitted =
    E_userJoined string
  | E_userCount nat
  | E_error string
  | E_messageHistory "row list"
  | E_message nat string string jsdate
  | E_typing string
  | E_stopTyping string
  | E_pong
  | E_userLeft string

datatype action =
    SocketEmit sid emitted
  | SocketBroadcastEmit sid emitted
  | IoEmit emitted
  | DbRunInsert string string string
  | DbAllSelect nat

text \<open>
  Who receives an emit, among the live connections: \<open>socket.emit\<close> reaches the socket
  itself, \<open>socket.broadcast.emit\<close> every connection but that socket, \<open>io.emit\<close> every
  connection.
\<close>

fun recipients :: "sid fset \<Rightarrow> action \<Rightarrow> sid fset" where
  "recipients live (SocketEmit sid e) = {|sid|}"
| "recipients live (SocketBroadcastEmit sid e) = live |-| {|sid|}"
| "recipients live (IoEmit e) = live"
| "recipients live (DbRunInsert u t ts) = {||}"
| "recipients live (DbAllSelect n) = {||}"

fun is_insert :: "action \<Rightarrow> bool" where
  "is_insert (DbRunInsert u t ts) = True"
| "is_insert a = False"

fun is_fanout :: "action \<Rightarrow> bool" where
  "is_fanout (SocketBroadcastEmit sid e) = True"
| "is_fanout (IoEmit e) = True"
| "is_fanout a = False"

subsection \<open>The socket handlers\<close>

definition on_userJoined :: "server \<Rightarrow> sid \<Rightarrow> string \<Rightarrow> server \<times> action list" where
  "on_userJoined s sid username =
     (let s1 = s\<lparr>connectedUsers := finsert username (connectedUsers s)\<rparr>;
          s2 = s1\<lparr>sockets := fmupd sid \<lparr>socket_username = Some username\<rparr> (sockets s1)\<rparr>
      in (s2, [SocketBroadcastEmit sid (E_userJoined username),
               IoEmit (E_userCount (fcard (connectedUsers s2)))]))"

definition on_getMessageHistory :: "env \<Rightarrow> server \<Rightarrow> sid \<Rightarrow> server \<times> action list" where
  "on_getMessageHistory e s sid =
     ensureSchema (schema_err e) (\<lambda>_.
       case db_all_select (stmt_err e) (db s) 20 of
         None \<Rightarrow> (s, [DbAllSelect 20, SocketEmit sid (E_error ''Failed to load message history'')])
       | Some rs \<Rightarrow> (s, [DbAllSelect 20, SocketEmit sid (E_messageHistory (rev rs))]))"

record message_data =
  msg_username :: string
  msg_text :: string
  msg_timestamp :: jsdate

definition on_message ::
  "env \<Rightarrow> server \<Rightarrow> sid \<Rightarrow> message_data \<Rightarrow> js_error + server \<times> action list" where
  "on_message e s sid data =
     (if \<not> js_truthy (msg_username data) \<or> \<not> js_truthy (msg_text data)
         \<or> length (msg_username data) > 50 \<or> length (msg_text data) > 255
      then Inr (s, [SocketEmit sid (E_error ''Invalid message data'')])
      else ensureSchema (schema_err e) (\<lambda>_.
        case toISOString (msg_timestamp data) of
          Inl exn \<Rightarrow> Inl exn
        | Inr ts \<Rightarrow>
            (case db_run_insert (stmt_err e) (db s) (msg_username data) (msg_text data) ts of
               (None, d) \<Rightarrow>
                 Inr (s, [DbRunInsert (msg_username data) (msg_text data) ts,
                          SocketEmit sid (E_error ''Failed to send message'')])
             | (Some lastID, d) \<Rightarrow>
                 Inr (s\<lparr>db := d\<rparr>,
                      [DbRunInsert (msg_username data) (msg_text data) ts,
                       IoEmit (E_message lastID (msg_username data) (msg_text data)
                                 (msg_timestamp data))]))))"

definition on_typing :: "server \<Rightarrow> sid \<Rightarrow> string \<Rightarrow> server \<times> action list" where
  "on_typing s sid username =
     (if js_truthy username \<and> \<not> username |\<in>| typingUsers s
      then (s\<lparr>typingUsers := finsert username (typingUsers s)\<rparr>,
            [SocketBroadcastEmit sid (E_typing username)])
      else (s, []))"

definition on_stopTyping :: "server \<Rightarrow> sid \<Rightarrow> string \<Rightarrow> server \<times> action list" where
  "on_stopTyping s sid username =
     (if js_truthy username \<and> username |\<in>| typingUsers s
      then (s\<lparr>typingUsers := typingUsers s |-| {|username|}\<rparr>,
            [SocketBroadcastEmit sid (E_stopTyping username)])
      else (s, []))"

definition on_ping :: "server \<Rightarrow> sid \<Rightarrow> server \<times> action list" where
  "on_ping s sid = (s, [SocketEmit sid E_pong])"

definition on_userLeft :: "server \<Rightarrow> sid \<Rightarrow> string \<Rightarrow> server \<times> action list" where
  "on_userLeft s sid username =
     (if js_truthy username
      then (let s1 = s\<lparr>connectedUsers := connectedUsers s |-| {|username|}\<rparr>;
                s2 = s1\<lparr>typingUsers := typingUsers s1 |-| {|username|}\<rparr>
            in (s2, [SocketBroadcastEmit sid (E_userLeft username),
                     IoEmit (E_userCount (fcard (connectedUsers s2)))]))
      else (s, []))"

definition on_disconnect :: "server \<Rightarrow> sid \<Rightarrow> server \<times> action list" where
  \<comment> \<open>\<open>socket.username\<close> is \<open>undefined\<close> until the socket's first \<open>userJoined\<close>\<close>
  "on_disconnect s sid =
     (case fmlookup (sockets s) sid of
        None \<Rightarrow> (s, [])
      | Some sock \<Rightarrow>
          (case socket_username sock of
             None \<Rightarrow> (s, [])
           | Some username \<Rightarrow>
               if js_truthy username
               then (let s1 = s\<lparr>connectedUsers := connectedUsers s |-| {|username|}\<rparr>;
                         s2 = s1\<lparr>typingUsers := typingUsers s1 |-| {|username|}\<rparr>
                     in (s2, [SocketBroadcastEmit sid (E_userLeft username),
                              IoEmit (E_userCount (fcard (connectedUsers s2)))]))
               else (s, [])))"

subsection \<open>Connections and runs\<close>

datatype client_event =
    Connection
  | UserJoined string
  | GetMessageHistory
  | Message message_data
  | Typing string
  | StopTyping string
  | Ping
  | UserLeft string
  | Disconnect

text \<open>
  A connection gets a fresh socket with no username; the handlers exist for live sockets
  only; after its \<open>disconnect\<close> handler has run, the socket is gone. An exception
  that no handler catches ends the run.
\<close>

definition handle ::
  "env \<Rightarrow> server \<Rightarrow> sid \<Rightarrow> client_event \<Rightarrow> js_error + server \<times> action list" where
  "handle e s sid ev =
     (case ev of
        Connection \<Rightarrow> Inr (s, [])
      | UserJoined u \<Rightarrow> Inr (on_userJoined s sid u)
      | GetMessageHistory \<Rightarrow> Inr (on_getMessageHistory e s sid)
      | Message data \<Rightarrow> on_message e s sid data
      | Typing u \<Rightarrow> Inr (on_typing s sid u)
      | StopTyping u \<Rightarrow> Inr (on_stopTyping s sid u)
      | Ping \<Rightarrow> Inr (on_ping s sid)
      | UserLeft u \<Rightarrow> Inr (on_userLeft s sid u)
      | Disconnect \<Rightarrow>
          (case on_disconnect s sid of
             (s', acts) \<Rightarrow> Inr (s'\<lparr>sockets := fmdrop sid (sockets s')\<rparr>, acts)))"

definition step ::
  "env \<Rightarrow> server \<Rightarrow> sid \<Rightarrow> client_event \<Rightarrow> js_error + server \<times> action list" where
  "step e s sid ev =
     (case fmlookup (sockets s) sid of
        None \<Rightarrow>
          (if ev = Connection
           then Inr (s\<lparr>sockets := fmupd sid \<lparr>socket_username = None\<rparr> (sockets s)\<rparr>, [])
           else Inr (s, []))
      | Some sock \<Rightarrow> handle e s sid ev)"

fun run ::
  "server \<Rightarrow> (env \<times> sid \<times> client_event) list \<Rightarrow> js_error + server \<times> action list" where
  "run s [] = Inr (s, [])"
| "run s ((e, sid, ev) # evs) =
     (case step e s sid ev of
        Inl exn \<Rightarrow> Inl exn
      | Inr (s', acts) \<Rightarrow>
          (case run s' evs of
             Inl exn \<Rightarrow> Inl exn
           | Inr (s'', acts') \<Rightarrow> Inr (s'', acts @ acts')))"

definition ok :: env where
  "ok = \<lparr>schema_err = False, stmt_err = False\<rparr>"

subsection \<open>\<open>POST /api/ai-chat\<close>\<close>





datatype http_body = Reply string | ErrorBody string

record http_response =
  status :: nat
  body :: http_body

definition json :: "http_body \<Rightarrow> http_response" where
  \<comment> \<open>\<open>res.json\<close> with no status set\<close>
  "json b = \<lparr>status = 200, body = b\<rparr>"











subsection \<open>Predicates on outcomes, and the states and payloads of the examples\<close>

fun is_error_to :: "sid \<Rightarrow> action \<Rightarrow> bool" where
  "is_error_to sid (SocketEmit sid' (E_error m)) = (sid' = sid)"
| "is_error_to sid a = False"

definition rejected :: "sid \<Rightarrow> js_error + server \<times> action list \<Rightarrow> bool" where
  \<comment> \<open>the sender gets an error event, no insert is run, nothing is sent to anybody else\<close>
  "rejected sid r =
     (case r of
        Inl exn \<Rightarrow> False
      | Inr (s', acts) \<Rightarrow>
          list_ex (is_error_to sid) acts \<and> \<not> list_ex is_insert acts \<and> \<not> list_ex is_fanout acts)"

definition names_user :: "string \<Rightarrow> client_event \<Rightarrow> bool" where
  "names_user u ev \<longleftrightarrow> ev = UserJoined u \<or> ev = UserLeft u"

definition unbound :: "server \<Rightarrow> string \<Rightarrow> bool" where
  \<comment> \<open>no live socket has the username \<open>u\<close>\<close>
  "unbound s u \<longleftrightarrow> fmpred (\<lambda>sid sock. socket_username sock \<noteq> Some u) (sockets s)"

definition failing :: env where
  "failing = \<lparr>schema_err = False, stmt_err = True\<rparr>"

definition alice_online :: server where
  \<comment> \<open>socket 0 has joined as alice, socket 1 is connected and has not joined\<close>
  "alice_online = \<lparr>connectedUsers = {|''alice''|}, typingUsers = {||},
     db = \<lparr>rows = [], sqlite_sequence = 0\<rparr>,
     sockets = fmupd 1 \<lparr>socket_username = None\<rparr>
                 (fmupd 0 \<lparr>socket_username = Some ''alice''\<rparr> fmempty)\<rparr>"

definition alice_alone :: server where
  "alice_alone = \<lparr>connectedUsers = {|''alice''|}, typingUsers = {||},
     db = \<lparr>rows = [], sqlite_sequence = 0\<rparr>,
     sockets = fmupd 0 \<lparr>socket_username = Some ''alice''\<rparr> fmempty\<rparr>"

definition hi_from_alice :: message_data where
  "hi_from_alice = \<lparr>msg_username = ''alice'', msg_text = ''hi'',
     msg_timestamp = Date ''2024-01-01T00:00:00.000Z''\<rparr>"

definition late_then_early :: "row list" where
  \<comment> \<open>the second row was inserted later and carries the earlier timestamp\<close>
  "late_then_early =
     [\<lparr>row_id = 1, row_username = ''alice'', row_text = ''hi'',
       row_timestamp = ''2024-01-02T00:00:00.000Z''\<rparr>,
      \<lparr>row_id = 2, row_username = ''bob'', row_text = ''yo'',
       row_timestamp = ''2024-01-01T00:00:00.000Z''\<rparr>]"








section \<open>Sending a message\<close>

text \<open>
  A message whose username and text are non-empty and at most 50 and 255 long passes the
  validation, and then the handler does one of three things. With a valid date, the insert
  runs first: when it fails the store is unchanged and the only emit is an error event to the
  sender's own socket; when it succeeds the row is appended with the id the table assigns,
  and only then the message is emitted with \<open>io.emit\<close>, which reaches every connection,
  the sender included, and carries that id. With an invalid date \<open>toISOString\<close> throws
  inside the callback, where no \<open>try\<close> is active.
\<close>

lemma on_message_outcomes:
  assumes "msg_username data \<noteq> []" and "msg_text data \<noteq> []"
    and "length (msg_username data) \<le> 50" and "length (msg_text data) \<le> 255"
  shows
    "(case msg_timestamp data of
        InvalidDate \<Rightarrow> on_message e s sid data = Inl RangeError
      | Date ts \<Rightarrow>
          (if stmt_err e
           then on_message e s sid data =
                  Inr (s, [DbRunInsert (msg_username data) (msg_text data) ts,
                           SocketEmit sid (E_error ''Failed to send message'')])
           else on_message e s sid data =
                  Inr (s\<lparr>db := (db s)\<lparr>rows := rows (db s) @
                                  [\<lparr>row_id = next_rowid (db s), row_username = msg_username data,
                                    row_text = msg_text data, row_timestamp = ts\<rparr>],
                                sqlite_sequence := next_rowid (db s)\<rparr>\<rparr>,
                       [DbRunInsert (msg_username data) (msg_text data) ts,
                        IoEmit (E_message (next_rowid (db s)) (msg_username data) (msg_text data)
                                  (Date ts))])))
     \<and> recipients live (SocketEmit sid (E_error ''Failed to send message'')) = {|sid|}
     \<and> recipients live (IoEmit (E_message i (msg_username data) (msg_text data) d)) = live"
  using assms
  by (cases "msg_timestamp data")
     (auto simp: on_message_def js_truthy_def ensureSchema_def db_run_insert_def Let_def)

text \<open>
  C1 does not hold of the code. A message with a good username and text whose timestamp
  \<open>new Date\<close> cannot read is neither persisted nor answered: the handler validates it, and
  the callback that should run the insert throws a \<open>RangeError\<close> while it builds the
  parameters. The \<open>try\<close> of the handler has ended by then, so its \<open>catch\<close>, which
  would have sent "Failed to send message", is not reached: the sender gets no error event,
  no insert is run, and the exception ends the run of the server.
\<close>

theorem valid_message_with_invalid_date_throws:
  assumes "msg_username data \<noteq> []" and "msg_text data \<noteq> []"
    and "length (msg_username data) \<le> 50" and "length (msg_text data) \<le> 255"
    and "msg_timestamp data = InvalidDate"
  shows "on_message e s sid data = Inl RangeError
    \<and> \<not> rejected sid (on_message e s sid data)
    \<and> (fmlookup (sockets s) sid \<noteq> None \<longrightarrow>
         run s ((e, sid, Message data) # evs) = Inl RangeError)"
  using assms
  by (auto simp: on_message_def js_truthy_def ensureSchema_def rejected_def step_def handle_def)

text \<open>
  C1, at alice's message "hi" sent with an unreadable timestamp: the run ends with the
  exception before the ping that follows it is served.
\<close>

theorem valid_message_with_invalid_date_throws_witness:
  "msg_username (hi_from_alice\<lparr>msg_timestamp := InvalidDate\<rparr>) \<noteq> []
   \<and> msg_text (hi_from_alice\<lparr>msg_timestamp := InvalidDate\<rparr>) \<noteq> []
   \<and> length (msg_username (hi_from_alice\<lparr>msg_timestamp := InvalidDate\<rparr>)) \<le> 50
   \<and> length (msg_text (hi_from_alice\<lparr>msg_timestamp := InvalidDate\<rparr>)) \<le> 255
   \<and> msg_timestamp (hi_from_alice\<lparr>msg_timestamp := InvalidDate\<rparr>) = InvalidDate
   \<and> on_message ok alice_online 0 (hi_from_alice\<lparr>msg_timestamp := InvalidDate\<rparr>) = Inl RangeError
   \<and> fmlookup (sockets alice_online) 0 \<noteq> None
   \<and> run alice_online
        [(ok, 0, Message (hi_from_alice\<lparr>msg_timestamp := InvalidDate\<rparr>)), (ok, 1, Ping)]
       = Inl RangeError"
  using valid_message_with_invalid_date_throws
          [of "hi_from_alice\<lparr>msg_timestamp := InvalidDate\<rparr>" ok alice_online 0 "[(ok, 1, Ping)]"]
  by (simp add: hi_from_alice_def alice_online_def)

text \<open>
  C2. A message is rejected (an error event to the sender's socket, no insert, no emit to
  anybody else) exactly when its username is empty, or its text is empty, or the username is
  longer than 50, or the text is longer than 255; the state is then unchanged and the error
  event is the only action.
\<close>

theorem message_rejected_iff_invalid:
  "(rejected sid (on_message e s sid data)
      \<longleftrightarrow> msg_username data = [] \<or> msg_text data = []
          \<or> length (msg_username data) > 50 \<or> length (msg_text data) > 255)
   \<and> (rejected sid (on_message e s sid data)
      \<longrightarrow> on_message e s sid data = Inr (s, [SocketEmit sid (E_error ''Invalid message data'')]))"
  by (cases "msg_timestamp data")
     (auto simp: rejected_def on_message_def js_truthy_def ensureSchema_def db_run_insert_def Let_def)

text \<open>
  C2, at a text of 256 characters (rejected) and at alice's "hi" (not rejected, whether the
  insert succeeds or fails).
\<close>

theorem message_rejected_iff_invalid_witness:
  "rejected 0 (on_message ok alice_online 0 (hi_from_alice\<lparr>msg_text := replicate 256 CHR ''a''\<rparr>))
   \<and> on_message ok alice_online 0 (hi_from_alice\<lparr>msg_text := replicate 256 CHR ''a''\<rparr>)
       = Inr (alice_online, [SocketEmit 0 (E_error ''Invalid message data'')])
   \<and> \<not> rejected 0 (on_message ok alice_online 0 hi_from_alice)
   \<and> \<not> rejected 0 (on_message failing alice_online 0 hi_from_alice)"
  using message_rejected_iff_invalid
          [of 0 ok alice_online "hi_from_alice\<lparr>msg_text := replicate 256 CHR ''a''\<rparr>"]
    message_rejected_iff_invalid [of 0 ok alice_online hi_from_alice]
    message_rejected_iff_invalid [of 0 failing alice_online hi_from_alice]
  by (simp add: hi_from_alice_def)

section \<open>Message history\<close>

text \<open>
  The query orders by the \<open>timestamp\<close> column, which holds what the client declared. The
  result has \<open>min n (length rs)\<close> rows, in descending order of timestamp, taken from the
  table, and no row left out has a later timestamp than a row returned.
\<close>

lemma length_select_recent: "length (select_recent n rs) = min n (length rs)"
  by (simp add: select_recent_def min.commute)

lemma sorted_desc_all: "sorted_wrt (\<lambda>a b. row_timestamp b \<le> row_timestamp a) (rev (sort_key row_timestamp rs))"
proof -
  have "sorted (map row_timestamp (sort_key row_timestamp rs))"
    by (rule sorted_sort_key)
  then have "sorted_wrt (\<lambda>a b. row_timestamp a \<le> row_timestamp b) (sort_key row_timestamp rs)"
    by (simp add: sorted_map)
  then show ?thesis
    by (simp add: sorted_wrt_rev)
qed

lemma sorted_select_recent:
  "sorted_wrt (\<lambda>a b. row_timestamp b \<le> row_timestamp a) (select_recent n rs)"
  unfolding select_recent_def by (rule sorted_wrt_take) (rule sorted_desc_all)

lemma select_recent_top:
  "\<exists>rest. mset (select_recent n rs) + mset rest = mset rs
     \<and> (\<forall>x\<in>set (select_recent n rs). \<forall>y\<in>set rest. row_timestamp y \<le> row_timestamp x)"
proof -
  let ?ss = "rev (sort_key row_timestamp rs)"
  have "mset (take n ?ss) + mset (drop n ?ss) = mset ?ss"
    by (metis append_take_drop_id mset_append)
  then have m: "mset (select_recent n rs) + mset (drop n ?ss) = mset rs"
    by (simp add: select_recent_def)
  have "sorted_wrt (\<lambda>a b. row_timestamp b \<le> row_timestamp a) (take n ?ss @ drop n ?ss)"
    using sorted_desc_all [of rs] by simp
  then have "\<forall>x\<in>set (take n ?ss). \<forall>y\<in>set (drop n ?ss). row_timestamp y \<le> row_timestamp x"
    unfolding sorted_wrt_append by blast
  with m show ?thesis
    unfolding select_recent_def by blast
qed

lemma select_recent_insertion_order:
  assumes "sorted_wrt (<) (map row_timestamp rs)"
  shows "select_recent n rs = take n (rev rs)"
proof -
  have "sorted (map row_timestamp rs)"
    using assms by (rule strict_sorted_imp_sorted)
  then show ?thesis
    by (simp add: select_recent_def sort_key_id_if_sorted)
qed

lemma history_ascending:
  "sorted (map row_timestamp (rev (select_recent n rs)))"
proof -
  have "sorted_wrt (\<lambda>a b. row_timestamp a \<le> row_timestamp b) (rev (select_recent n rs))"
    using sorted_select_recent [of n rs] by (simp add: sorted_wrt_rev)
  then show ?thesis by (simp add: sorted_map)
qed

text \<open>
  C3, as the code has it. \<open>recent(n)\<close> returns the \<open>min n count\<close> rows with the latest
  timestamps, in descending order of timestamp; these are the most recently inserted rows in
  descending insertion order when the timestamps increase strictly with insertion. When its
  query succeeds, the history handler changes nothing and emits to the requesting socket alone
  the reverse of \<open>recent(20)\<close>: at most 20 messages in ascending order of timestamp. When
  the query fails, the requesting socket alone gets an error event.
\<close>

theorem history_is_by_timestamp:
  "length (select_recent n rs) = min n (length rs)
   \<and> sorted_wrt (\<lambda>a b. row_timestamp b \<le> row_timestamp a) (select_recent n rs)
   \<and> (\<exists>rest. mset (select_recent n rs) + mset rest = mset rs
         \<and> (\<forall>x\<in>set (select_recent n rs). \<forall>y\<in>set rest. row_timestamp y \<le> row_timestamp x))
   \<and> (sorted_wrt (<) (map row_timestamp rs) \<longrightarrow> select_recent n rs = take n (rev rs))
   \<and> (\<not> stmt_err e \<longrightarrow>
        on_getMessageHistory e s sid =
          (s, [DbAllSelect 20,
               SocketEmit sid (E_messageHistory (rev (select_recent 20 (rows (db s)))))])
        \<and> length (rev (select_recent 20 (rows (db s)))) \<le> 20
        \<and> sorted (map row_timestamp (rev (select_recent 20 (rows (db s))))))
   \<and> (stmt_err e \<longrightarrow>
        on_getMessageHistory e s sid =
          (s, [DbAllSelect 20, SocketEmit sid (E_error ''Failed to load message history'')]))
   \<and> recipients live (SocketEmit sid ev) = {|sid|}"
  using select_recent_top [of n rs] select_recent_insertion_order [of rs n]
  by (simp add: length_select_recent sorted_select_recent history_ascending
        on_getMessageHistory_def ensureSchema_def db_all_select_def)

text \<open>
  C3 as amended, at a table whose second row is the earlier one by timestamp: the history is
  the table reversed, bob's message (the earlier timestamp) first; on the reversed table, where
  timestamps follow insertion, the latest row is the one inserted last.
\<close>

theorem history_is_by_timestamp_witness:
  "\<not> stmt_err ok
   \<and> on_getMessageHistory ok (alice_online\<lparr>db := \<lparr>rows = late_then_early, sqlite_sequence = 2\<rparr>\<rparr>) 1
      = (alice_online\<lparr>db := \<lparr>rows = late_then_early, sqlite_sequence = 2\<rparr>\<rparr>,
         [DbAllSelect 20, SocketEmit 1 (E_messageHistory (rev late_then_early))])
   \<and> stmt_err failing
   \<and> on_getMessageHistory failing alice_online 1
      = (alice_online, [DbAllSelect 20, SocketEmit 1 (E_error ''Failed to load message history'')])
   \<and> sorted_wrt (<) (map row_timestamp (rev late_then_early))
   \<and> select_recent 1 (rev late_then_early) = [late_then_early ! 0]
   \<and> select_recent 1 late_then_early = [late_then_early ! 0]"
  using history_is_by_timestamp
          [of 1 late_then_early ok "alice_online\<lparr>db := \<lparr>rows = late_then_early, sqlite_sequence = 2\<rparr>\<rparr>"
              1 "{|0, 1|}" E_pong]
    history_is_by_timestamp [of 1 "rev late_then_early" failing alice_online 1 "{|0, 1|}" E_pong]
  by (simp add: ok_def failing_def late_then_early_def select_recent_def)

text \<open>
  C3 as stated fails. Alice's message is sent with a timestamp of 2 January, then bob's with a
  timestamp of 1 January. \<open>recent(20)\<close> returns alice's row before bob's, which is
  ascending and not descending insertion order, and \<open>recent(1)\<close> returns alice's row, which
  is not the most recently inserted one; the history shows bob's message, inserted last, first.
\<close>

theorem recent_is_not_insertion_order:
  "run initial
     [(ok, 0, Connection),
      (ok, 0, Message \<lparr>msg_username = ''alice'', msg_text = ''hi'',
                       msg_timestamp = Date ''2024-01-02T00:00:00.000Z''\<rparr>),
      (ok, 0, Message \<lparr>msg_username = ''bob'', msg_text = ''yo'',
                       msg_timestamp = Date ''2024-01-01T00:00:00.000Z''\<rparr>),
      (ok, 0, GetMessageHistory)]
   = Inr (initial\<lparr>db := \<lparr>rows = late_then_early, sqlite_sequence = 2\<rparr>,
                   sockets := fmupd 0 \<lparr>socket_username = None\<rparr> fmempty\<rparr>,
          [DbRunInsert ''alice'' ''hi'' ''2024-01-02T00:00:00.000Z'',
           IoEmit (E_message 1 ''alice'' ''hi'' (Date ''2024-01-02T00:00:00.000Z'')),
           DbRunInsert ''bob'' ''yo'' ''2024-01-01T00:00:00.000Z'',
           IoEmit (E_message 2 ''bob'' ''yo'' (Date ''2024-01-01T00:00:00.000Z'')),
           DbAllSelect 20,
           SocketEmit 0 (E_messageHistory (rev late_then_early))])
   \<and> select_recent 20 late_then_early = late_then_early
   \<and> select_recent 20 late_then_early \<noteq> take 20 (rev late_then_early)
   \<and> select_recent 1 late_then_early = [late_then_early ! 0]
   \<and> select_recent 1 late_then_early \<noteq> take 1 (rev late_then_early)"
  by (simp add: step_def handle_def on_message_def on_getMessageHistory_def ensureSchema_def
        db_run_insert_def db_all_select_def select_recent_def next_rowid_def
        initial_def ok_def js_truthy_def late_then_early_def)

section \<open>Presence\<close>

text \<open>
  C5. A join adds the username to the connected set (which leaves the set as it was when the
  name is already there), binds it to the socket, emits the join notice to every connection but
  the joiner's and then the size of the connected set, as it is after the add, to every
  connection. Both emits happen whether or not the name was already in the set.
\<close>

theorem userJoined_adds_and_broadcasts:
  "connectedUsers (fst (on_userJoined s sid u)) = finsert u (connectedUsers s)
   \<and> (u |\<in>| connectedUsers s \<longrightarrow> connectedUsers (fst (on_userJoined s sid u)) = connectedUsers s)
   \<and> snd (on_userJoined s sid u) =
        [SocketBroadcastEmit sid (E_userJoined u),
         IoEmit (E_userCount (fcard (connectedUsers (fst (on_userJoined s sid u)))))]
   \<and> recipients live (snd (on_userJoined s sid u) ! 0) = live |-| {|sid|}
   \<and> recipients live (snd (on_userJoined s sid u) ! 1) = live
   \<and> sockets (fst (on_userJoined s sid u)) = fmupd sid \<lparr>socket_username = Some u\<rparr> (sockets s)
   \<and> typingUsers (fst (on_userJoined s sid u)) = typingUsers s
   \<and> db (fst (on_userJoined s sid u)) = db s"
  by (auto simp: on_userJoined_def Let_def)

text \<open>
  C5, at a second socket joining as alice, who is connected already (the count stays 1, both
  emits happen), and as bob (the count becomes 2).
\<close>

theorem userJoined_adds_and_broadcasts_witness:
  "''alice'' |\<in>| connectedUsers alice_online
   \<and> connectedUsers (fst (on_userJoined alice_online 1 ''alice'')) = connectedUsers alice_online
   \<and> snd (on_userJoined alice_online 1 ''alice'') =
        [SocketBroadcastEmit 1 (E_userJoined ''alice''), IoEmit (E_userCount 1)]
   \<and> snd (on_userJoined alice_online 1 ''bob'') =
        [SocketBroadcastEmit 1 (E_userJoined ''bob''), IoEmit (E_userCount 2)]"
  using userJoined_adds_and_broadcasts [of alice_online 1 "''alice''"]
    userJoined_adds_and_broadcasts [of alice_online 1 "''bob''"]
  by (simp add: alice_online_def fcard_finsert_if)

text \<open>
  C6, as the code has it. When the socket's username is a non-empty string, the disconnect
  removes it from the connected set and from the typing set (a removal of a name that is not
  there changes nothing), emits the leave notice to every other connection and the new count
  to every connection. When the socket has no username, or the empty string as its username,
  the disconnect changes nothing and emits nothing. The socket is gone afterwards.
\<close>

theorem disconnect_removes_nonempty_bound_username:
  "(fmlookup (sockets s) sid = Some sock \<longrightarrow>
     (case socket_username sock of
        None \<Rightarrow> on_disconnect s sid = (s, [])
      | Some u \<Rightarrow>
          if u = [] then on_disconnect s sid = (s, [])
          else on_disconnect s sid =
                 (s\<lparr>connectedUsers := connectedUsers s |-| {|u|},
                    typingUsers := typingUsers s |-| {|u|}\<rparr>,
                  [SocketBroadcastEmit sid (E_userLeft u),
                   IoEmit (E_userCount (fcard (connectedUsers s |-| {|u|})))])
               \<and> (u |\<notin>| connectedUsers s \<longrightarrow>
                     connectedUsers (fst (on_disconnect s sid)) = connectedUsers s)
               \<and> (u |\<notin>| typingUsers s \<longrightarrow>
                     typingUsers (fst (on_disconnect s sid)) = typingUsers s)))
   \<and> handle e s sid Disconnect =
       Inr ((fst (on_disconnect s sid))\<lparr>sockets := fmdrop sid (sockets s)\<rparr>,
            snd (on_disconnect s sid))
   \<and> recipients live (SocketBroadcastEmit sid ev) = live |-| {|sid|}
   \<and> recipients live (IoEmit ev) = live"
  by (auto simp: on_disconnect_def handle_def js_truthy_def Let_def split: option.splits prod.splits)

text \<open>
  C6 as amended, at the disconnect of alice's socket (alice leaves, count 0), of a socket
  that never joined (nothing happens), and of alice's socket after somebody else has removed
  her name (the sets stay as they are, the two emits happen).
\<close>

theorem disconnect_removes_nonempty_bound_username_witness:
  "fmlookup (sockets alice_online) 0 = Some \<lparr>socket_username = Some ''alice''\<rparr>
   \<and> on_disconnect alice_online 0 =
        (alice_online\<lparr>connectedUsers := {||}\<rparr>,
         [SocketBroadcastEmit 0 (E_userLeft ''alice''), IoEmit (E_userCount 0)])
   \<and> fmlookup (sockets alice_online) 1 = Some \<lparr>socket_username = None\<rparr>
   \<and> on_disconnect alice_online 1 = (alice_online, [])
   \<and> fmlookup (sockets (alice_online\<lparr>connectedUsers := {||}\<rparr>)) 0 = Some \<lparr>socket_username = Some ''alice''\<rparr>
   \<and> ''alice'' |\<notin>| connectedUsers (alice_online\<lparr>connectedUsers := {||}\<rparr>)
   \<and> on_disconnect (alice_online\<lparr>connectedUsers := {||}\<rparr>) 0 =
        (alice_online\<lparr>connectedUsers := {||}\<rparr>,
         [SocketBroadcastEmit 0 (E_userLeft ''alice''), IoEmit (E_userCount 0)])"
  using disconnect_removes_nonempty_bound_username
          [of alice_online 0 "\<lparr>socket_username = Some ''alice''\<rparr>" ok "{|0, 1|}" E_pong]
    disconnect_removes_nonempty_bound_username
          [of alice_online 1 "\<lparr>socket_username = None\<rparr>" ok "{|0, 1|}" E_pong]
    disconnect_removes_nonempty_bound_username
          [of "alice_online\<lparr>connectedUsers := {||}\<rparr>" 0 "\<lparr>socket_username = Some ''alice''\<rparr>"
              ok "{|0, 1|}" E_pong]
  by (simp add: alice_online_def)

text \<open>
  C6 as stated fails for the empty username. A socket that joins with the username \<open>""\<close> has
  that username bound and in the connected set (the join reports the count 1); its disconnect
  removes nothing and emits nothing, and the empty name stays in the connected set with no
  connection left.
\<close>

theorem disconnect_keeps_empty_username:
  "run initial [(ok, 0, Connection), (ok, 0, UserJoined [])] =
     Inr (initial\<lparr>connectedUsers := {|[]|}, sockets := fmupd 0 \<lparr>socket_username = Some []\<rparr> fmempty\<rparr>,
          [SocketBroadcastEmit 0 (E_userJoined []), IoEmit (E_userCount 1)])
   \<and> on_disconnect
        (initial\<lparr>connectedUsers := {|[]|}, sockets := fmupd 0 \<lparr>socket_username = Some []\<rparr> fmempty\<rparr>) 0
      = (initial\<lparr>connectedUsers := {|[]|}, sockets := fmupd 0 \<lparr>socket_username = Some []\<rparr> fmempty\<rparr>, [])
   \<and> run initial [(ok, 0, Connection), (ok, 0, UserJoined []), (ok, 0, Disconnect)] =
     Inr (initial\<lparr>connectedUsers := {|[]|}\<rparr>,
          [SocketBroadcastEmit 0 (E_userJoined []), IoEmit (E_userCount 1)])"
  by (simp add: step_def handle_def on_userJoined_def on_disconnect_def initial_def js_truthy_def
       fcard_finsert_if fmdrop_fmupd_same)

text \<open>
  A username that is in the connected set and bound to no live socket stays in the set through
  every event that is neither a join nor a leave naming it.
\<close>

lemma handle_keeps_unnamed_user:
  assumes "u |\<in>| connectedUsers s" and "unbound s u" and "\<not> names_user u ev"
    and "fmlookup (sockets s) sid = Some sock"
    and "handle e s sid ev = Inr (s', acts)"
  shows "u |\<in>| connectedUsers s' \<and> unbound s' u"
proof (cases ev)
  case (Message data)
  with assms show ?thesis
    by (cases "msg_timestamp data")
       (auto simp: handle_def on_message_def ensureSchema_def db_run_insert_def Let_def unbound_def fmpred_iff
          split: if_splits)
next
  case Disconnect
  with assms show ?thesis
    by (auto simp: handle_def on_disconnect_def Let_def unbound_def fmpred_iff
          split: if_splits option.splits)
next
  case (UserJoined x)
  with assms show ?thesis
    by (auto simp: handle_def on_userJoined_def Let_def unbound_def fmpred_iff names_user_def
          split: if_splits)
next
  case (UserLeft x)
  with assms show ?thesis
    by (auto simp: handle_def on_userLeft_def Let_def unbound_def fmpred_iff names_user_def split: if_splits)
next
  case (Typing x)
  with assms show ?thesis
    by (auto simp: handle_def on_typing_def unbound_def fmpred_iff split: if_splits)
next
  case (StopTyping x)
  with assms show ?thesis
    by (auto simp: handle_def on_stopTyping_def unbound_def fmpred_iff split: if_splits)
next
  case GetMessageHistory
  with assms show ?thesis
    by (auto simp: handle_def on_getMessageHistory_def ensureSchema_def db_all_select_def
          split: if_splits)
qed (use assms in \<open>auto simp: handle_def on_ping_def\<close>)

lemma step_keeps_unnamed_user:
  assumes "u |\<in>| connectedUsers s" and "unbound s u" and "\<not> names_user u ev"
    and "step e s sid ev = Inr (s', acts)"
  shows "u |\<in>| connectedUsers s' \<and> unbound s' u"
proof (cases "fmlookup (sockets s) sid")
  case None
  with assms show ?thesis
    by (auto simp: step_def unbound_def fmpred_iff split: if_splits)
next
  case (Some sock)
  with assms handle_keeps_unnamed_user [of u s ev sid sock e s' acts] show ?thesis
    by (simp add: step_def)
qed

lemma run_keeps_unnamed_user:
  assumes "\<forall>x\<in>set evs. \<not> names_user u (snd (snd x))"
    and "u |\<in>| connectedUsers s" and "unbound s u"
    and "run s evs = Inr (s', acts)"
  shows "u |\<in>| connectedUsers s'"
  using assms
proof (induction evs arbitrary: s acts)
  case Nil
  then show ?case by simp
next
  case (Cons x evs)
  obtain e sid ev where x: "x = (e, sid, ev)"
    by (cases x) auto
  from Cons.prems(4) x obtain s1 a1 a2 where
    st: "step e s sid ev = Inr (s1, a1)" and rn: "run s1 evs = Inr (s', a2)"
    by (auto split: sum.splits prod.splits)
  have "\<not> names_user u ev"
    using Cons.prems(1) x by simp
  with Cons.prems(2,3) st have "u |\<in>| connectedUsers s1 \<and> unbound s1 u"
    using step_keeps_unnamed_user by blast
  moreover have "\<forall>x\<in>set evs. \<not> names_user u (snd (snd x))"
    using Cons.prems(1) by simp
  ultimately show ?case
    using Cons.IH rn by blast
qed

text \<open>
  C9, as the code has it. A socket bound to \<open>u1\<close> joins again as \<open>u2\<close>: the join adds
  \<open>u2\<close>, overwrites the binding and removes nothing. The disconnect that follows removes
  \<open>u2\<close> only (nothing when \<open>u2\<close> is empty) and announces only \<open>u2\<close>, so \<open>u1\<close> is
  still in the connected set when the socket is gone. When the socket was the only connection,
  the connected set is then larger than the number of connections. When no other socket is
  bound to \<open>u1\<close>, it stays in the set through every later run with no join or leave event
  naming \<open>u1\<close>.
\<close>

theorem rejoin_leaves_old_username:
  assumes "fmlookup (sockets s) sid = Some \<lparr>socket_username = Some u1\<rparr>"
    and "u1 |\<in>| connectedUsers s" and "u2 \<noteq> u1"
  shows "connectedUsers (fst (on_userJoined s sid u2)) = finsert u2 (connectedUsers s)
    \<and> fmlookup (sockets (fst (on_userJoined s sid u2))) sid = Some \<lparr>socket_username = Some u2\<rparr>
    \<and> (\<exists>s2 acts.
          run s [(e, sid, UserJoined u2), (e', sid, Disconnect)] = Inr (s2, acts)
          \<and> connectedUsers s2 =
              (if u2 = [] then finsert u2 (connectedUsers s) else connectedUsers s |-| {|u2|})
          \<and> u1 |\<in>| connectedUsers s2
          \<and> sockets s2 = fmdrop sid (sockets s)
          \<and> acts = [SocketBroadcastEmit sid (E_userJoined u2),
                     IoEmit (E_userCount (fcard (finsert u2 (connectedUsers s))))]
                  @ (if u2 = [] then []
                     else [SocketBroadcastEmit sid (E_userLeft u2),
                           IoEmit (E_userCount (fcard (connectedUsers s |-| {|u2|})))])
          \<and> (fmdom (sockets s) = {|sid|} \<longrightarrow> fcard (fmdom (sockets s2)) < fcard (connectedUsers s2))
          \<and> (unbound s2 u1 \<longrightarrow>
               (\<forall>evs s3 acts3.
                  (\<forall>x\<in>set evs. \<not> names_user u1 (snd (snd x))) \<and> run s2 evs = Inr (s3, acts3)
                  \<longrightarrow> u1 |\<in>| connectedUsers s3)))"
proof -
  let ?s1 = "fst (on_userJoined s sid u2)"
  let ?s2 = "(fst (on_disconnect ?s1 sid))\<lparr>sockets := fmdrop sid (sockets s)\<rparr>"
  let ?acts = "snd (on_userJoined s sid u2) @ snd (on_disconnect ?s1 sid)"
  have j: "connectedUsers ?s1 = finsert u2 (connectedUsers s)"
    "fmlookup (sockets ?s1) sid = Some \<lparr>socket_username = Some u2\<rparr>"
    by (simp_all add: on_userJoined_def Let_def)
  have r: "run s [(e, sid, UserJoined u2), (e', sid, Disconnect)] = Inr (?s2, ?acts)"
    using assms(1)
    by (simp add: step_def handle_def on_userJoined_def on_disconnect_def Let_def
          fmdrop_fmupd_same split: prod.splits)
  have c: "connectedUsers ?s2 =
      (if u2 = [] then finsert u2 (connectedUsers s) else connectedUsers s |-| {|u2|})"
    by (simp add: on_userJoined_def on_disconnect_def Let_def js_truthy_def)
  have m: "u1 |\<in>| connectedUsers ?s2"
    unfolding c using assms(2,3) by auto
  have a: "?acts = [SocketBroadcastEmit sid (E_userJoined u2),
                     IoEmit (E_userCount (fcard (finsert u2 (connectedUsers s))))]
                  @ (if u2 = [] then []
                     else [SocketBroadcastEmit sid (E_userLeft u2),
                           IoEmit (E_userCount (fcard (connectedUsers s |-| {|u2|})))])"
    by (simp add: on_userJoined_def on_disconnect_def Let_def js_truthy_def)
  have k: "sockets ?s2 = fmdrop sid (sockets s)"
    by simp
  have n: "fmdom (sockets s) = {|sid|} \<longrightarrow>
      fcard (fmdom (sockets ?s2)) < fcard (connectedUsers ?s2)"
  proof
    assume d: "fmdom (sockets s) = {|sid|}"
    have "fmdom (sockets ?s2) = fmdom (sockets s) |-| {|sid|}"
      by simp
    with d have "fcard (fmdom (sockets ?s2)) = 0"
      by simp
    moreover have "0 < fcard (connectedUsers ?s2)"
      using m by (metis fempty_iff fcard_0_eq gr0I)
    ultimately show "fcard (fmdom (sockets ?s2)) < fcard (connectedUsers ?s2)"
      by (simp only:)
  qed
  have p: "unbound ?s2 u1 \<longrightarrow>
      (\<forall>evs s3 acts3.
         (\<forall>x\<in>set evs. \<not> names_user u1 (snd (snd x))) \<and> run ?s2 evs = Inr (s3, acts3)
         \<longrightarrow> u1 |\<in>| connectedUsers s3)"
    using m run_keeps_unnamed_user by blast
  show ?thesis
    using j r c m a k n p by blast
qed

text \<open>
  C9 as amended, at alice's socket joining again as bob and disconnecting: alice is still
  connected, with the count 1 reported last and no connection left, and she is still there
  after carol has come and gone.
\<close>

theorem rejoin_leaves_old_username_witness:
  "run initial [(ok, 0, Connection), (ok, 0, UserJoined ''alice'')] =
     Inr (alice_alone, [SocketBroadcastEmit 0 (E_userJoined ''alice''), IoEmit (E_userCount 1)])
   \<and> fmlookup (sockets alice_alone) 0 = Some \<lparr>socket_username = Some ''alice''\<rparr>
   \<and> ''alice'' |\<in>| connectedUsers alice_alone \<and> ''bob'' \<noteq> ''alice''
   \<and> run alice_alone [(ok, 0, UserJoined ''bob''), (ok, 0, Disconnect)] =
       Inr (alice_alone\<lparr>sockets := fmempty\<rparr>,
            [SocketBroadcastEmit 0 (E_userJoined ''bob''), IoEmit (E_userCount 2),
             SocketBroadcastEmit 0 (E_userLeft ''bob''), IoEmit (E_userCount 1)])
   \<and> connectedUsers (alice_alone\<lparr>sockets := fmempty\<rparr>) = {|''alice''|}
   \<and> fcard (fmdom (sockets (alice_alone\<lparr>sockets := fmempty\<rparr>))) = 0
   \<and> fcard (connectedUsers (alice_alone\<lparr>sockets := fmempty\<rparr>)) = 1
   \<and> fmdom (sockets alice_alone) = {|0|}
   \<and> unbound (alice_alone\<lparr>sockets := fmempty\<rparr>) ''alice''
   \<and> \<not> names_user ''alice'' Connection \<and> \<not> names_user ''alice'' (UserJoined ''carol'')
   \<and> \<not> names_user ''alice'' Disconnect
   \<and> run (alice_alone\<lparr>sockets := fmempty\<rparr>)
        [(ok, 1, Connection), (ok, 1, UserJoined ''carol''), (ok, 1, Disconnect)] =
       Inr (alice_alone\<lparr>sockets := fmempty\<rparr>,
            [SocketBroadcastEmit 1 (E_userJoined ''carol''), IoEmit (E_userCount 2),
             SocketBroadcastEmit 1 (E_userLeft ''carol''), IoEmit (E_userCount 1)])"
  using rejoin_leaves_old_username [of alice_alone 0 "''alice''" "''bob''" ok ok]
  by (simp add: alice_alone_def initial_def step_def handle_def on_userJoined_def on_disconnect_def
        js_truthy_def unbound_def names_user_def fcard_finsert_if fmdrop_fmupd_same Let_def)

text \<open>
  C9 as stated fails on "permanently" and on the count. After the same events a second socket
  connects: the count is 1 for one live connection, not more. That socket then sends a leave
  event for alice, which removes her from the connected set.
\<close>

theorem old_username_can_be_evicted:
  "run initial
     [(ok, 0, Connection), (ok, 0, UserJoined ''alice''), (ok, 0, UserJoined ''bob''),
      (ok, 0, Disconnect), (ok, 1, Connection)]
   = Inr (initial\<lparr>connectedUsers := {|''alice''|}, sockets := fmupd 1 \<lparr>socket_username = None\<rparr> fmempty\<rparr>,
          [SocketBroadcastEmit 0 (E_userJoined ''alice''), IoEmit (E_userCount 1),
           SocketBroadcastEmit 0 (E_userJoined ''bob''), IoEmit (E_userCount 2),
           SocketBroadcastEmit 0 (E_userLeft ''bob''), IoEmit (E_userCount 1)])
   \<and> fcard (fmdom (fmupd 1 \<lparr>socket_username = None\<rparr> fmempty)) = (1::nat)
   \<and> run (initial\<lparr>connectedUsers := {|''alice''|}, sockets := fmupd 1 \<lparr>socket_username = None\<rparr> fmempty\<rparr>)
        [(ok, 1, UserLeft ''alice'')]
      = Inr (initial\<lparr>sockets := fmupd 1 \<lparr>socket_username = None\<rparr> fmempty\<rparr>,
             [SocketBroadcastEmit 1 (E_userLeft ''alice''), IoEmit (E_userCount 0)])
   \<and> ''alice'' |\<notin>| connectedUsers (initial\<lparr>sockets := fmupd 1 \<lparr>socket_username = None\<rparr> fmempty\<rparr>)"
  by (simp add: initial_def step_def handle_def on_userJoined_def on_disconnect_def on_userLeft_def
        js_truthy_def fcard_finsert_if fmdrop_fmupd_same Let_def)

text \<open>
  C10. A \<open>userLeft\<close> event that carries a non-empty username removes that name from the
  connected set and from the typing set, emits the leave notice for it to every other
  connection and the new count to every connection. The handler never reads the sockets: its
  result is the same whatever username, if any, is bound to the sender or to anybody else, and
  it leaves every binding as it was.
\<close>

theorem userLeft_evicts_any_username:
  assumes "u \<noteq> []"
  shows "connectedUsers (fst (on_userLeft s sid u)) = connectedUsers s |-| {|u|}
    \<and> typingUsers (fst (on_userLeft s sid u)) = typingUsers s |-| {|u|}
    \<and> snd (on_userLeft s sid u) =
         [SocketBroadcastEmit sid (E_userLeft u),
          IoEmit (E_userCount (fcard (connectedUsers s |-| {|u|})))]
    \<and> sockets (fst (on_userLeft s sid u)) = sockets s
    \<and> db (fst (on_userLeft s sid u)) = db s
    \<and> on_userLeft (s\<lparr>sockets := m\<rparr>) sid u =
         ((fst (on_userLeft s sid u))\<lparr>sockets := m\<rparr>, snd (on_userLeft s sid u))"
  using assms by (simp add: on_userLeft_def js_truthy_def Let_def)

text \<open>
  C10, at socket 1, which never joined, evicting alice, who is bound to socket 0: the connected
  set becomes empty, the count 0 is reported, and socket 0 is still bound to alice.
\<close>

theorem userLeft_evicts_any_username_witness:
  "''alice'' \<noteq> []
   \<and> fmlookup (sockets alice_online) 0 = Some \<lparr>socket_username = Some ''alice''\<rparr>
   \<and> fmlookup (sockets alice_online) 1 = Some \<lparr>socket_username = None\<rparr>
   \<and> connectedUsers (fst (on_userLeft alice_online 1 ''alice'')) = {||}
   \<and> snd (on_userLeft alice_online 1 ''alice'') =
        [SocketBroadcastEmit 1 (E_userLeft ''alice''), IoEmit (E_userCount 0)]
   \<and> fmlookup (sockets (fst (on_userLeft alice_online 1 ''alice''))) 0
       = Some \<lparr>socket_username = Some ''alice''\<rparr>"
  using userLeft_evicts_any_username [of "''alice''" alice_online 1 "sockets alice_online"]
  by (simp add: alice_online_def)

section \<open>Typing notifications\<close>

text \<open>
  C4, as the code has it. A typing event emits only when the name was not in the typing set, a
  stop-typing event only when it was, and a typing event that follows a typing event for the
  same name never does anything. For a non-empty name: typing adds the name and emits the
  notice to every connection but the sender's exactly when the name was not in the set;
  stop-typing removes it and emits exactly when it was; two typing events in a row, the name
  not being in the set before, emit exactly one notice between them. For the empty name both
  handlers change nothing and emit nothing, in every state.
\<close>

theorem typing_broadcasts_on_change_only:
  "(snd (on_typing s sid u) \<noteq> [] \<longrightarrow> u |\<notin>| typingUsers s)
   \<and> (snd (on_stopTyping s sid u) \<noteq> [] \<longrightarrow> u |\<in>| typingUsers s)
   \<and> on_typing (fst (on_typing s sid u)) sid' u = (fst (on_typing s sid u), [])
   \<and> (u \<noteq> [] \<longrightarrow>
        on_typing s sid u =
          (if u |\<in>| typingUsers s then (s, [])
           else (s\<lparr>typingUsers := finsert u (typingUsers s)\<rparr>,
                 [SocketBroadcastEmit sid (E_typing u)]))
        \<and> on_stopTyping s sid u =
          (if u |\<in>| typingUsers s
           then (s\<lparr>typingUsers := typingUsers s |-| {|u|}\<rparr>,
                 [SocketBroadcastEmit sid (E_stopTyping u)])
           else (s, []))
        \<and> (u |\<notin>| typingUsers s \<longrightarrow>
             snd (on_typing s sid u) @ snd (on_typing (fst (on_typing s sid u)) sid' u) =
               [SocketBroadcastEmit sid (E_typing u)]))
   \<and> on_typing s sid [] = (s, [])
   \<and> on_stopTyping s sid [] = (s, [])
   \<and> recipients live (SocketBroadcastEmit sid ev) = live |-| {|sid|}"
  by (auto simp: on_typing_def on_stopTyping_def js_truthy_def)

text \<open>
  C4 as amended, at alice: two typing events emit one notice, the stop-typing that follows
  emits one and restores the state, a stop-typing while she is not typing emits nothing; and
  at the empty name, for which neither handler does anything, even in a state whose typing
  set holds it.
\<close>

theorem typing_broadcasts_on_change_only_witness:
  "''alice'' \<noteq> [] \<and> ''alice'' |\<notin>| typingUsers alice_online
   \<and> snd (on_typing alice_online 0 ''alice'')
       @ snd (on_typing (fst (on_typing alice_online 0 ''alice'')) 0 ''alice'')
       = [SocketBroadcastEmit 0 (E_typing ''alice'')]
   \<and> typingUsers (fst (on_typing alice_online 0 ''alice'')) = {|''alice''|}
   \<and> on_stopTyping (fst (on_typing alice_online 0 ''alice'')) 0 ''alice''
       = (alice_online, [SocketBroadcastEmit 0 (E_stopTyping ''alice'')])
   \<and> on_stopTyping alice_online 0 ''alice'' = (alice_online, [])
   \<and> on_typing alice_online 0 [] = (alice_online, [])
   \<and> on_stopTyping alice_online 0 [] = (alice_online, [])
   \<and> on_stopTyping (alice_online\<lparr>typingUsers := {|[]|}\<rparr>) 0 []
       = (alice_online\<lparr>typingUsers := {|[]|}\<rparr>, [])"
  using typing_broadcasts_on_change_only [of alice_online 0 "''alice''" 0 "{|0, 1|}" E_pong]
    typing_broadcasts_on_change_only
      [of "fst (on_typing alice_online 0 ''alice'')" 0 "''alice''" 0 "{|0, 1|}" E_pong]
    typing_broadcasts_on_change_only
      [of "alice_online\<lparr>typingUsers := {|[]|}\<rparr>" 0 "''alice''" 0 "{|0, 1|}" E_pong]
  by (auto simp: alice_online_def)

text \<open>
  C4 as stated fails for the empty username: nobody is typing, two typing events for \<open>""\<close>
  follow each other, and no notice is emitted at all (the claim wants exactly one), nor is the
  name added to the typing set.
\<close>

theorem typing_empty_username_no_broadcast:
  "[] |\<notin>| typingUsers initial
   \<and> snd (on_typing initial 0 []) @ snd (on_typing (fst (on_typing initial 0 [])) 0 []) = []
   \<and> [] |\<notin>| typingUsers (fst (on_typing initial 0 []))"
  by (simp add: on_typing_def js_truthy_def initial_def)

section \<open>The AI endpoint\<close>









section \<open>Liveness probe\<close>

text \<open>
  C8. In every state and for every socket, a ping emits one pong to that socket alone and
  changes nothing: the connected set, the typing set, the sockets with their usernames and the
  table are as before.
\<close>

theorem ping_pong_only:
  "on_ping s sid = (s, [SocketEmit sid E_pong])
   \<and> handle e s sid Ping = Inr (s, [SocketEmit sid E_pong])
   \<and> recipients live (SocketEmit sid E_pong) = {|sid|}
   \<and> connectedUsers (fst (on_ping s sid)) = connectedUsers s
   \<and> typingUsers (fst (on_ping s sid)) = typingUsers s
   \<and> sockets (fst (on_ping s sid)) = sockets s
   \<and> db (fst (on_ping s sid)) = db s"
  by (simp add: on_ping_def handle_def)

end
